theory Spec2Isabelle
  imports Complex_Main
begin

section \<open>Export of circuits to qpic documents (tequila/circuit/qpic.py)\<close>

text \<open>
  A shallow embedding of \<^verbatim>\<open>assign_name\<close>, \<^verbatim>\<open>export_to_qpic\<close> and
  \<^verbatim>\<open>export_to\<close>. Python strings are \<open>string\<close>s, qubit identifiers are
  natural numbers, exceptions are values of the type \<open>error\<close>, and the statement
  \<^verbatim>\<open>result += s\<close> becomes the concatenation of the pieces that the loops return.
\<close>

subsection \<open>Strings\<close>

definition backslash :: char where
  "backslash = CHR 0x5C"

definition newline :: string where
  "newline = [CHR 0x0A]"

definition digit_char :: "nat \<Rightarrow> char" where
  "digit_char d = char_of (48 + d)"

text \<open>\<^verbatim>\<open>str(n)\<close> for a non-negative integer: its decimal digits.\<close>

function str_nat :: "nat \<Rightarrow> string" where
  "str_nat n = (if n < 10 then [digit_char n] else str_nat (n div 10) @ [digit_char (n mod 10)])"
  by pat_completeness auto
termination
  by (relation "measure (\<lambda>n. n)") auto

declare str_nat.simps [simp del]

text \<open>\<^verbatim>\<open>s.upper()\<close> on the ASCII letters.\<close>

definition upper_char :: "char \<Rightarrow> char" where
  "upper_char c =
     (if 97 \<le> (of_char c :: nat) \<and> (of_char c :: nat) \<le> 122
      then char_of ((of_char c :: nat) - 32) else c)"

definition upper :: "string \<Rightarrow> string" where
  "upper s = map upper_char s"

text \<open>\<^verbatim>\<open>s.lstrip(c)\<close> and \<^verbatim>\<open>s.rstrip(c)\<close> for a single character.\<close>

definition lstrip :: "char \<Rightarrow> string \<Rightarrow> string" where
  "lstrip c s = dropWhile (\<lambda>x. x = c) s"

definition rstrip :: "char \<Rightarrow> string \<Rightarrow> string" where
  "rstrip c s = rev (dropWhile (\<lambda>x. x = c) (rev s))"

text \<open>\<^verbatim>\<open>sep.join(xs)\<close>.\<close>

fun join :: "string \<Rightarrow> string list \<Rightarrow> string" where
  "join sep [] = []"
| "join sep [x] = x"
| "join sep (x # y # ys) = x @ sep @ join sep (y # ys)"

text \<open>\<^verbatim>\<open>s.split(c)\<close> for a one-character separator; the result is never empty.\<close>

fun split_on :: "char \<Rightarrow> string \<Rightarrow> string list" where
  "split_on c [] = [[]]"
| "split_on c (x # xs) =
     (if x = c then [] # split_on c xs
      else (case split_on c xs of
              [] \<Rightarrow> [[x]]
            | y # ys \<Rightarrow> (x # y) # ys))"

text \<open>\<^verbatim>\<open>s.endswith(t)\<close>.\<close>

definition endswith :: "string \<Rightarrow> string \<Rightarrow> bool" where
  "endswith s t = (length t \<le> length s \<and> drop (length s - length t) s = t)"

subsection \<open>Exceptions\<close>

datatype error =
    KeyError
  | IndexError
  | AttributeError
  | IOError
  | NoQpic
  | NoFiletype string
  | CompilerError

text \<open>
  Sequencing of two pieces of output: the second is computed only when the first did
  not raise, and the first exception wins.
\<close>

fun app_res :: "error + string \<Rightarrow> error + string \<Rightarrow> error + string" where
  "app_res (Inl e) _ = Inl e"
| "app_res (Inr a) (Inl e) = Inl e"
| "app_res (Inr a) (Inr b) = Inr (a @ b)"

subsection \<open>Parameters and their labels\<close>

text \<open>
  A Python \<^verbatim>\<open>float\<close> is a finite number, negative zero, an infinity with its sign
  (\<open>Inf True\<close> is \<^verbatim>\<open>-inf\<close>) or a NaN. A finite float is modelled by the rational
  number it denotes (\<open>Finite 0\<close> is \<^verbatim>\<open>0.0\<close>), with exact arithmetic: the rounding of
  the few operations inside \<^verbatim>\<open>numpy.isclose\<close> is not modelled.
\<close>

datatype pyfloat = Finite rat | NegZero | Inf bool | NaN

text \<open>
  A gate parameter is one of: \<^verbatim>\<open>None\<close>; a plain number (an instance of
  \<^verbatim>\<open>numbers.Number\<close> that is not a \<^verbatim>\<open>FixedVariable\<close>), given by its
  \<^verbatim>\<open>repr\<close>; a tuple; an object with \<^verbatim>\<open>extract_variables\<close>, given by the
  \<^verbatim>\<open>repr\<close> of each variable it returns; a \<^verbatim>\<open>FixedVariable\<close> (a subclass of
  \<^verbatim>\<open>float\<close>); or any other object, given by its \<^verbatim>\<open>repr\<close> (\<open>None\<close> when
  \<^verbatim>\<open>repr\<close> raises) and its \<^verbatim>\<open>str\<close>.
\<close>

datatype parameter =
    PNone
  | PNumber string
  | PTuple
  | PSymbolic "string list"
  | PFixed pyfloat
  | POther "string option" string

fun is_Number :: "parameter \<Rightarrow> bool" where
  "is_Number (PNumber _) = True"
| "is_Number (PFixed _) = True"
| "is_Number _ = False"

text \<open>\<^verbatim>\<open>numpy.pi\<close>, the double nearest to \<open>\<pi>\<close>, exactly.\<close>

definition numpy_pi :: rat where
  "numpy_pi = 884279719003555 / 281474976710656"

text \<open>
  \<^verbatim>\<open>numpy.isclose(a, b, atol=atol)\<close> on finite numbers, with numpy's default
  relative tolerance \<^verbatim>\<open>rtol=1e-05\<close>: \<^verbatim>\<open>abs(a - b) <= atol + rtol * abs(b)\<close>.
\<close>

definition rtol :: rat where
  "rtol = 1 / 100000"

definition isclose :: "rat \<Rightarrow> rat \<Rightarrow> rat \<Rightarrow> bool" where
  "isclose a b atol = (\<bar>a - b\<bar> \<le> atol + rtol * \<bar>b\<bar>)"

text \<open>Rounding to the nearest integer, ties to even, of a non-negative number.\<close>

definition round_half_even :: "rat \<Rightarrow> nat" where
  "round_half_even y =
     (let f = \<lfloor>y\<rfloor>; r = y - of_int f
      in nat (if r < 1 / 2 then f else if 1 / 2 < r then f + 1
              else if even f then f else f + 1))"

text \<open>A number below \<open>10 ^ k\<close> written with exactly \<open>k\<close> digits.\<close>

fun pad_digits :: "nat \<Rightarrow> nat \<Rightarrow> string" where
  "pad_digits 0 n = []"
| "pad_digits (Suc k) n = pad_digits k (n div 10) @ [digit_char (n mod 10)]"

text \<open>A magnitude with four fractional digits, rounded to the nearest, ties to even.\<close>

definition fixed4 :: "rat \<Rightarrow> string" where
  "fixed4 m =
     (let n = round_half_even (m * 10000)
      in str_nat (n div 10000) @ ''.'' @ pad_digits 4 (n mod 10000))"

text \<open>
  \<^verbatim>\<open>"{:+2.4f}".format(x)\<close>: the sign of the float (its sign bit, so negative zero is
  written with a minus), then the magnitude with four fractional digits; an infinity
  is \<^verbatim>\<open>+inf\<close> or \<^verbatim>\<open>-inf\<close> and a NaN is \<^verbatim>\<open>+nan\<close>.
\<close>

fun format_p24f :: "pyfloat \<Rightarrow> string" where
  "format_p24f (Finite x) = (if x < 0 then ''-'' else ''+'') @ fixed4 \<bar>x\<bar>"
| "format_p24f NegZero = ''-'' @ fixed4 0"
| "format_p24f (Inf s) = (if s then ''-'' else ''+'') @ ''inf''"
| "format_p24f NaN = ''+nan''"

text \<open>
  The test of line 29:
  \<^verbatim>\<open>numpy.isclose(numpy.abs(float(parameter)), numpy.pi/i, atol=1.e-4)\<close>. The absolute
  value of negative zero is zero; an infinity or a NaN is close to no finite number.
\<close>

fun pi_close :: "pyfloat \<Rightarrow> nat \<Rightarrow> bool" where
  "pi_close (Finite p) i = isclose \<bar>p\<bar> (numpy_pi / of_nat i) (1 / 10000)"
| "pi_close NegZero i = isclose 0 (numpy_pi / of_nat i) (1 / 10000)"
| "pi_close (Inf s) i = False"
| "pi_close NaN i = False"

text \<open>The test of line 30, \<^verbatim>\<open>float(parameter) < 0.0\<close>: negative zero is not below zero.\<close>

fun negative :: "pyfloat \<Rightarrow> bool" where
  "negative (Finite p) = (p < 0)"
| "negative NegZero = False"
| "negative (Inf s) = s"
| "negative NaN = False"

text \<open>The loop \<^verbatim>\<open>for i in [1,2,3,4]\<close> of \<^verbatim>\<open>assign_name\<close>; \<open>None\<close> when it falls through.\<close>

fun pi_fraction :: "pyfloat \<Rightarrow> nat list \<Rightarrow> string option" where
  "pi_fraction p [] = None"
| "pi_fraction p (i # is) =
     (if pi_close p i
      then (if negative p then Some (''-'' @ [backslash] @ ''pi/'' @ str_nat i)
            else Some (''+'' @ [backslash] @ ''pi/'' @ str_nat i))
      else pi_fraction p is)"

text \<open>\<^verbatim>\<open>repr\<close> of a list of objects with the given \<^verbatim>\<open>repr\<close>s.\<close>

definition repr_list :: "string list \<Rightarrow> string" where
  "repr_list xs = ''['' @ join '', '' xs @ '']''"

fun assign_name :: "parameter \<Rightarrow> string" where
  "assign_name PTuple = [backslash] @ ''theta''"
| "assign_name (PSymbolic vs) = rstrip (CHR '']'') (lstrip (CHR ''['') (repr_list vs))"
| "assign_name (PFixed p) =
     (case pi_fraction p [1, 2, 3, 4] of
        Some s \<Rightarrow> s
      | None \<Rightarrow> format_p24f p)"
| "assign_name PNone = ''None''"
| "assign_name (PNumber r) = r"
| "assign_name (POther (Some r) s) = r"
| "assign_name (POther None s) = s"

subsection \<open>Circuits, gates and options\<close>

text \<open>
  A Pauli string is a dictionary from qubits to operator letters; \<^verbatim>\<open>ps.items()\<close>
  runs in insertion order, so it is an association list, and \<^verbatim>\<open>len(ps) == 0\<close> is
  \<open>ps = []\<close>.
\<close>

type_synonym paulistring = "(nat \<times> string) list"

text \<open>
  What the exporter reads of a gate. \<open>parameter g = None\<close> when the gate has no
  attribute \<^verbatim>\<open>parameter\<close>. \<open>angle_axis g = Some s\<close> when the gate has the attribute
  \<^verbatim>\<open>angle\<close>, and then \<open>s\<close> is \<^verbatim>\<open>g.axis_to_string[g.axis]\<close>.
  \<open>make_generator g b\<close> is \<^verbatim>\<open>g.make_generator(include_controls=b)\<close>, \<open>None\<close> or
  the \<^verbatim>\<open>paulistrings\<close> of the generator; \<open>generator g\<close> is the same for the
  attribute \<^verbatim>\<open>g.generator\<close>. \<^verbatim>\<open>g.is_controlled()\<close> is \<open>control g \<noteq> []\<close>.
\<close>

record gate =
  name :: string
  target :: "nat list"
  control :: "nat list"
  parameter :: "parameter option"
  angle_axis :: "string option"
  make_generator :: "bool \<Rightarrow> paulistring list option"
  generator :: "paulistring list option"

definition is_controlled :: "gate \<Rightarrow> bool" where
  "is_controlled g = (control g \<noteq> [])"

record circuit =
  qubits :: "nat list"
  gates :: "gate list"

text \<open>\<^verbatim>\<open>group_together\<close>: \<^verbatim>\<open>False\<close>, \<^verbatim>\<open>True\<close> or a string.\<close>

datatype group_option = GroupFalse | GroupTrue | GroupStr string

text \<open>\<^verbatim>\<open>qubit_names\<close>: \<^verbatim>\<open>None\<close>, one string, or a list of names.\<close>

datatype names_option = NamesNone | NamesStr string | NamesList "string list"

record options =
  always_use_generators :: bool
  decompose_control_generators :: bool
  group_together :: group_option
  qubit_names :: names_option
  mark_parametrized_gates :: bool

text \<open>The defaults of the keyword arguments of \<^verbatim>\<open>export_to_qpic\<close>.\<close>

definition default_options :: options where
  "default_options =
     \<lparr>always_use_generators = True, decompose_control_generators = False,
      group_together = GroupFalse, qubit_names = NamesNone, mark_parametrized_gates = True\<rparr>"

subsection \<open>The document builder\<close>

definition header :: string where
  "header =
     ''COLOR tq 0.03137254901960784 0.1607843137254902 0.23921568627450981'' @ newline @
     ''COLOR guo 0.988 0.141 0.757'' @ newline"

text \<open>Lines 50-51: \<^verbatim>\<open>True\<close> becomes \<^verbatim>\<open>"TOUCH"\<close>.\<close>

fun normalize_group :: "group_option \<Rightarrow> group_option" where
  "normalize_group GroupTrue = GroupStr ''TOUCH''"
| "normalize_group g = g"

text \<open>
  Lines 54-57: the list that \<^verbatim>\<open>qubit_names[i]\<close> indexes, each entry already passed
  through \<^verbatim>\<open>str\<close>.
\<close>

fun display_names :: "names_option \<Rightarrow> nat list \<Rightarrow> string list" where
  "display_names NamesNone qs = map str_nat qs"
| "display_names (NamesStr s) qs = map (\<lambda>i. s) [0..<length qs]"
| "display_names (NamesList xs) qs = xs"

definition wire_name :: "nat \<Rightarrow> string" where
  "wire_name q = ''a'' @ str_nat q"

definition wire_line :: "nat \<Rightarrow> string \<Rightarrow> string" where
  "wire_line q d = wire_name q @ '' W '' @ d @ newline"

text \<open>
  Lines 58-61, the loop over \<^verbatim>\<open>enumerate(circuit.qubits)\<close>: it fills the dictionary
  \<^verbatim>\<open>names\<close> and appends one line per qubit. \<^verbatim>\<open>qubit_names[i]\<close> raises
  \<^verbatim>\<open>IndexError\<close> beyond the end of the list.
\<close>

fun wires :: "string list \<Rightarrow> (nat \<times> nat) list \<Rightarrow> (nat \<rightharpoonup> string) \<Rightarrow> error + (nat \<rightharpoonup> string) \<times> string" where
  "wires dn [] names = Inr (names, [])"
| "wires dn ((i, q) # rest) names =
     (if i < length dn
      then (case wires dn rest (names(q \<mapsto> wire_name q)) of
              Inl e \<Rightarrow> Inl e
            | Inr (names', r) \<Rightarrow> Inr (names', wire_line q (dn ! i) @ r))
      else Inl IndexError)"

text \<open>The dictionary \<^verbatim>\<open>names\<close> once the loop over the qubits \<open>qs\<close> has run.\<close>

definition wire_names :: "nat list \<Rightarrow> (nat \<rightharpoonup> string)" where
  "wire_names qs = (\<lambda>q. if q \<in> set qs then Some (wire_name q) else None)"

text \<open>Lines 64-68: fill colour and text colour of the boxes of a gate.\<close>

definition gate_colors :: "bool \<Rightarrow> gate \<Rightarrow> string \<times> string" where
  "gate_colors mark g =
     (case parameter g of
        None \<Rightarrow> (''tq'', ''white'')
      | Some p \<Rightarrow> if \<not> is_Number p \<and> mark then (''guo'', ''black'') else (''tq'', ''white''))"

text \<open>
  The format string of lines 73, 81 and 97:
  \<^verbatim>\<open>" a{qubit} P:fill={gcol}  \\textcolor{tcol}{{{op}}} "\<close> with \<^verbatim>\<open>tcol\<close> in braces.
\<close>

definition box :: "nat \<Rightarrow> string \<Rightarrow> string \<Rightarrow> string \<Rightarrow> string" where
  "box qubit gcol tcol op =
     '' a'' @ str_nat qubit @ '' P:fill='' @ gcol @ ''  '' @ [backslash] @ ''textcolor'' @
     (''{'' @ tcol @ ''}'') @ ''{'' @ op @ ''} ''"

text \<open>
  \<^verbatim>\<open>for c in cs: result += names[c] + " "\<close>; a qubit that is not a key of
  \<^verbatim>\<open>names\<close> raises \<^verbatim>\<open>KeyError\<close>.
\<close>

fun wire_refs :: "(nat \<rightharpoonup> string) \<Rightarrow> nat list \<Rightarrow> error + string" where
  "wire_refs names [] = Inr []"
| "wire_refs names (c # cs) =
     (case names c of
        None \<Rightarrow> Inl KeyError
      | Some n \<Rightarrow> app_res (Inr (n @ '' '')) (wire_refs names cs))"

text \<open>
  The guarded loop over the controls \<open>cs\<close> of a gate:
  \<^verbatim>\<open>if cond: for c in g.control: result += names[c] + " "\<close>.
\<close>

definition control_refs :: "(nat \<rightharpoonup> string) \<Rightarrow> bool \<Rightarrow> nat list \<Rightarrow> error + string" where
  "control_refs names cond cs = (if cond then wire_refs names cs else Inr [])"

text \<open>
  Lines 72-76: the boxes of a Hadamard gate with the controls \<open>cs\<close>, one for each
  target; \<open>cond\<close> is \<^verbatim>\<open>g.is_controlled()\<close>.
\<close>

fun hadamard_boxes :: "(nat \<rightharpoonup> string) \<Rightarrow> string \<Rightarrow> string \<Rightarrow> bool \<Rightarrow> nat list \<Rightarrow> nat list \<Rightarrow> error + string" where
  "hadamard_boxes names gcol tcol cond cs [] = Inr []"
| "hadamard_boxes names gcol tcol cond cs (t # ts) =
     app_res (Inr (box t gcol tcol ''H''))
      (app_res (control_refs names cond cs)
        (hadamard_boxes names gcol tcol cond cs ts))"

text \<open>\<^verbatim>\<open>for k, v in ps.items(): result += box(k, v.upper())\<close>.\<close>

fun pauli_boxes :: "string \<Rightarrow> string \<Rightarrow> paulistring \<Rightarrow> string" where
  "pauli_boxes gcol tcol [] = []"
| "pauli_boxes gcol tcol ((k, v) # ps) = box k gcol tcol (upper v) @ pauli_boxes gcol tcol ps"

text \<open>
  Lines 78-85 and 94-101, the loop over the Pauli strings of a generator; \<open>cond\<close> is
  the guard of the loop over the controls \<open>cs\<close> of the gate.
\<close>

fun generator_terms :: "(nat \<rightharpoonup> string) \<Rightarrow> string \<Rightarrow> string \<Rightarrow> bool \<Rightarrow> nat list \<Rightarrow> paulistring list \<Rightarrow> error + string" where
  "generator_terms names gcol tcol cond cs [] = Inr []"
| "generator_terms names gcol tcol cond cs (ps # rest) =
     (if length ps = 0 then generator_terms names gcol tcol cond cs rest
      else app_res (Inr (pauli_boxes gcol tcol ps))
            (app_res (control_refs names cond cs)
              (app_res (Inr newline) (generator_terms names gcol tcol cond cs rest))))"

text \<open>
  Lines 86-89: the grouping line, emitted when \<^verbatim>\<open>group_together\<close> has the
  attribute \<^verbatim>\<open>upper\<close>, that is, when it is a string.
\<close>

fun group_line :: "nat list \<Rightarrow> group_option \<Rightarrow> string" where
  "group_line qs (GroupStr s) = concat (map (\<lambda>t. ''a'' @ str_nat t @ '' '') qs) @ upper s @ newline"
| "group_line qs _ = []"

text \<open>
  Lines 105-113: the label of a gate drawn in the generic way. \<^verbatim>\<open>g.parameter\<close> of a
  gate without that attribute raises \<^verbatim>\<open>AttributeError\<close>.
\<close>

definition gate_label :: "string \<Rightarrow> string \<Rightarrow> string" where
  "gate_label l a =
     '' G $'' @ l @ ''('' @ a @ '')$ width='' @ str_nat (25 + 5 * length a) @ '' ''"

definition generic_label :: "gate \<Rightarrow> error + string" where
  "generic_label g =
     (case angle_axis g of
        Some ax \<Rightarrow>
          (case parameter g of
             None \<Rightarrow> Inl AttributeError
           | Some p \<Rightarrow> Inr (gate_label (''R_{'' @ ax @ ''}'') (assign_name p)))
      | None \<Rightarrow>
          (case parameter g of
             None \<Rightarrow> Inr (name g @ '' '')
           | Some p \<Rightarrow>
               if p \<noteq> PNone then Inr (gate_label (name g) (assign_name p))
               else Inr (name g @ '' '')))"

text \<open>
  Lines 64-119, the body of the loop over the gates. \<open>grp\<close> is \<^verbatim>\<open>group_together\<close>
  after lines 50-51. \<^verbatim>\<open>g.generator.paulistrings\<close> of a gate without a generator
  raises \<^verbatim>\<open>AttributeError\<close>.
\<close>

definition render_gate :: "(nat \<rightharpoonup> string) \<Rightarrow> nat list \<Rightarrow> group_option \<Rightarrow> options \<Rightarrow> gate \<Rightarrow> error + string" where
  "render_gate names qs grp opts g =
     (let gcol = fst (gate_colors (mark_parametrized_gates opts) g);
          tcol = snd (gate_colors (mark_parametrized_gates opts) g)
      in app_res
           (if name g \<in> set [''H'', ''h''] then hadamard_boxes names gcol tcol (is_controlled g) (control g) (target g)
            else
              (case (if always_use_generators opts
                     then make_generator g (decompose_control_generators opts) else None) of
                 Some terms \<Rightarrow>
                   app_res
                     (generator_terms names gcol tcol
                        (is_controlled g \<and> \<not> decompose_control_generators opts) (control g) terms)
                     (Inr (group_line qs grp))
               | None \<Rightarrow>
                   if upper (name g) \<in> set [upper ''Exp-Pauli'', upper ''GenRot'']
                   then (case generator g of
                           None \<Rightarrow> Inl AttributeError
                         | Some terms \<Rightarrow>
                             generator_terms names gcol tcol (is_controlled g) (control g) terms)
                   else app_res (wire_refs names (target g))
                          (app_res (generic_label g)
                             (control_refs names (is_controlled g) (control g)))))
           (Inr newline))"

fun render_gates :: "(nat \<rightharpoonup> string) \<Rightarrow> nat list \<Rightarrow> group_option \<Rightarrow> options \<Rightarrow> gate list \<Rightarrow> error + string" where
  "render_gates names qs grp opts [] = Inr []"
| "render_gates names qs grp opts (g # gs) =
     app_res (render_gate names qs grp opts g) (render_gates names qs grp opts gs)"

definition enumerate :: "'a list \<Rightarrow> (nat \<times> 'a) list" where
  "enumerate xs = zip [0..<length xs] xs"

text \<open>Lines 44-119: the document, the value of \<^verbatim>\<open>result\<close> at line 120.\<close>

definition qpic_document :: "circuit \<Rightarrow> options \<Rightarrow> error + string" where
  "qpic_document c opts =
     (case wires (display_names (qubit_names opts) (qubits c)) (enumerate (qubits c)) Map.empty of
        Inl e \<Rightarrow> Inl e
      | Inr (names, w) \<Rightarrow>
          app_res (Inr (header @ w))
            (render_gates names (qubits c) (normalize_group (group_together opts)) opts (gates c)))"

subsection \<open>Files and processes\<close>

text \<open>
  The world outside the program: the content of the files, which paths can be opened
  for writing, and the trace of the calls of the compiler and of the renderer
  (\<^verbatim>\<open>subprocess.call(args, cwd=cwd)\<close>).
\<close>

datatype event = Compiled | Called "string list" "string option"

record world =
  files :: "string \<rightharpoonup> string"
  writable :: "string \<Rightarrow> bool"
  trace :: "event list"


text \<open>Lines 122-126: the path of the file that is written.\<close>

definition target_path :: "string \<Rightarrow> string option \<Rightarrow> string" where
  "target_path filename filepath =
     (let filenamex = (if \<not> endswith filename ''.qpic'' then filename @ ''.qpic'' else filename)
      in case filepath of
           None \<Rightarrow> filenamex
         | Some p \<Rightarrow> p @ ''/'' @ filenamex)"

text \<open>
  \<^verbatim>\<open>export_to_qpic\<close>. Opening a path that is not writable raises; otherwise the
  file holds exactly the document afterwards.
\<close>

definition export_to_qpic :: "circuit \<Rightarrow> string option \<Rightarrow> string option \<Rightarrow> options \<Rightarrow> world \<Rightarrow> (error + string) \<times> world" where
  "export_to_qpic c filename filepath opts w =
     (case qpic_document c opts of
        Inl e \<Rightarrow> (Inl e, w)
      | Inr result \<Rightarrow>
          (case filename of
             None \<Rightarrow> (Inr result, w)
           | Some f \<Rightarrow>
               if writable w (target_path f filepath)
               then (Inr result, w\<lparr>files := (files w)(target_path f filepath \<mapsto> result)\<rparr>)
               else (Inl IOError, w)))"

text \<open>
  Lines 165-179 of \<^verbatim>\<open>export_to\<close>: the file type, the base name and the directory.
  \<^verbatim>\<open>filename[0]\<close> is read only when \<^verbatim>\<open>fname\<close> contains a slash, so the filename
  is not empty there.
\<close>

definition split_filename :: "string \<Rightarrow> string \<times> string \<times> string option" where
  "split_filename filename =
     (let filename_tmp = split_on (CHR ''.'') filename;
          ftype = (if length filename_tmp = 1 then ''.pdf'' else last filename_tmp);
          fname = (if length filename_tmp = 1 then filename else join [] (butlast filename_tmp));
          tmp = split_on (CHR ''/'') fname;
          fpath = (if 1 < length tmp
                   then (if take 1 filename = ''/''
                         then Some (''/'' @ join [] (map (\<lambda>x. x @ ''/'') (butlast tmp)))
                         else Some (join [] (map (\<lambda>x. x @ ''/'') (butlast tmp))))
                   else None)
      in (ftype, last tmp, fpath))"

text \<open>
  \<^verbatim>\<open>export_to\<close>. \<open>system_has_qpic\<close> is the module's flag of that name, and
  \<open>compiler\<close> is \<^verbatim>\<open>Compiler(trotterized=True)\<close>, a collaborator of the exporter.
\<close>

definition export_to :: "bool \<Rightarrow> (circuit \<Rightarrow> error + circuit) \<Rightarrow> circuit \<Rightarrow> string \<Rightarrow> options \<Rightarrow> world \<Rightarrow> (error + unit) \<times> world" where
  "export_to system_has_qpic compiler c filename opts w =
     (if \<not> system_has_qpic then (Inl NoQpic, w)
      else if CHR ''.'' \<notin> set filename then (Inl (NoFiletype filename), w)
      else
        (case split_filename filename of
           (ftype, fname, fpath) \<Rightarrow>
             (case compiler c of
                Inl e \<Rightarrow> (Inl e, w\<lparr>trace := trace w @ [Compiled]\<rparr>)
              | Inr compiled \<Rightarrow>
                  (case export_to_qpic compiled (Some fname) fpath opts
                          (w\<lparr>trace := trace w @ [Compiled]\<rparr>) of
                     (Inl e, w') \<Rightarrow> (Inl e, w')
                   | (Inr doc, w') \<Rightarrow>
                       if ftype \<noteq> ''qpic''
                       then (Inr (),
                             w'\<lparr>trace := trace w' @
                                  [Called [''qpic'', fname @ ''.qpic'', ''-f'', ftype] fpath]\<rparr>)
                       else (Inr (), w')))))"

subsection \<open>The format of the output\<close>



subsection \<open>Example gates\<close>

text \<open>Concrete gates on which the properties below are evaluated.\<close>

definition no_generator :: "bool \<Rightarrow> paulistring list option" where
  "no_generator b = None"

definition example_hadamard :: gate where
  "example_hadamard =
     \<lparr>name = ''H'', target = [0], control = [1], parameter = None, angle_axis = None,
      make_generator = no_generator, generator = None\<rparr>"

definition example_symbolic_hadamard :: gate where
  "example_symbolic_hadamard =
     \<lparr>name = ''h'', target = [1], control = [], parameter = Some (PSymbolic [''a'']),
      angle_axis = None, make_generator = no_generator, generator = None\<rparr>"

definition two_terms :: "bool \<Rightarrow> paulistring list option" where
  "two_terms b = Some [[(0, ''x'')], [], [(1, ''z'')]]"

definition example_rotation :: gate where
  "example_rotation =
     \<lparr>name = ''Exp-Pauli'', target = [0, 1], control = [2], parameter = Some (PFixed (Finite 1)),
      angle_axis = None, make_generator = two_terms, generator = Some [[(0, ''x'')], [], [(1, ''z'')]]\<rparr>"

definition example_circuit :: circuit where
  "example_circuit = \<lparr>qubits = [0, 1, 2], gates = [example_hadamard, example_rotation]\<rparr>"











definition always_writable :: "string \<Rightarrow> bool" where
  "always_writable p = True"

definition example_world :: world where
  "example_world =
     \<lparr>files = [''d/circuit.qpic'' \<mapsto> ''old content''], writable = always_writable, trace = []\<rparr>"



definition example_options :: options where
  "example_options = default_options\<lparr>qubit_names := NamesList [''q'', ''r'', ''s'']\<rparr>"

text \<open>The document of the example circuit with the example options, character by character.\<close>

definition example_text :: string where
  "example_text =
     ''COLOR tq 0.03137254901960784 0.1607843137254902 0.23921568627450981'' @ [CHR 0x0A] @
     ''COLOR guo 0.988 0.141 0.757'' @ [CHR 0x0A] @
     ''a0 W q'' @ [CHR 0x0A] @
     ''a1 W r'' @ [CHR 0x0A] @
     ''a2 W s'' @ [CHR 0x0A] @
     '' a0 P:fill=tq  '' @ [CHR 0x5C] @ ''textcolor{white}{H} a1 '' @ [CHR 0x0A] @
     '' a0 P:fill=tq  '' @ [CHR 0x5C] @ ''textcolor{white}{X} a2 '' @ [CHR 0x0A] @
     '' a1 P:fill=tq  '' @ [CHR 0x5C] @ ''textcolor{white}{Z} a2 '' @ [CHR 0x0A] @
     [CHR 0x0A]"

section \<open>Properties\<close>

subsection \<open>Auxiliary facts\<close>


lemma app_res_nil: "app_res r (Inr []) = r"
  by (cases r) simp_all

lemma wire_refs_known:
  "\<forall>c \<in> set cs. names c = Some (wire_name c) \<Longrightarrow>
   wire_refs names cs = Inr (concat (map (\<lambda>c. wire_name c @ '' '') cs))"
  by (induction cs) simp_all

lemma control_refs_known:
  "set cs \<subseteq> set qs \<Longrightarrow>
   control_refs (wire_names qs) cond cs =
     Inr (if cond then concat (map (\<lambda>c. wire_name c @ '' '') cs) else [])"
  by (auto simp: control_refs_def wire_names_def intro!: wire_refs_known)

lemma generator_terms_filter:
  "generator_terms names gcol tcol cond cs (filter (\<lambda>ps. ps \<noteq> []) terms) =
   generator_terms names gcol tcol cond cs terms"
  by (induction terms) simp_all

lemma generator_terms_known:
  "control_refs names cond cs = Inr ctrl \<Longrightarrow>
   generator_terms names gcol tcol cond cs terms =
     Inr (concat (map (\<lambda>ps. pauli_boxes gcol tcol ps @ ctrl @ newline) (filter (\<lambda>ps. ps \<noteq> []) terms)))"
  by (induction terms) simp_all

lemma hadamard_boxes_known:
  "control_refs names cond cs = Inr ctrl \<Longrightarrow>
   hadamard_boxes names gcol tcol cond cs ts =
     Inr (concat (map (\<lambda>t. box t gcol tcol ''H'' @ ctrl) ts))"
  by (induction ts) simp_all

lemma render_gate_hadamard:
  "name g = ''H'' \<or> name g = ''h'' \<Longrightarrow>
   render_gate names qs grp opts g =
     app_res (hadamard_boxes names (fst (gate_colors (mark_parametrized_gates opts) g))
                (snd (gate_colors (mark_parametrized_gates opts) g)) (is_controlled g) (control g) (target g))
       (Inr newline)"
  by (auto simp: render_gate_def Let_def)

lemma render_gate_filter_generators:
  assumes n: "name g' = name g" and t: "target g' = target g" and c: "control g' = control g"
    and p: "parameter g' = parameter g" and a: "angle_axis g' = angle_axis g"
    and m: "make_generator g' (decompose_control_generators opts) =
              map_option (filter (\<lambda>ps. ps \<noteq> [])) (make_generator g (decompose_control_generators opts))"
    and e: "generator g' = map_option (filter (\<lambda>ps. ps \<noteq> [])) (generator g)"
  shows "render_gate names qs grp opts g' = render_gate names qs grp opts g"
proof -
  have gl: "generic_label g' = generic_label g"
    unfolding generic_label_def n p a ..
  have gc: "gate_colors k g' = gate_colors k g" for k
    by (simp add: gate_colors_def p)
  have ic: "is_controlled g' = is_controlled g"
    by (simp add: is_controlled_def c)
  show ?thesis
    unfolding render_gate_def Let_def gc gl ic n t c m e
    by (cases "make_generator g (decompose_control_generators opts)"; cases "generator g")
       (simp_all add: generator_terms_filter)
qed

lemma str_nat_digit: "n < 10 \<Longrightarrow> str_nat n = [digit_char n]"
  by (simp add: str_nat.simps)

lemma str_nat_0: "str_nat 0 = ''0''"
  by code_simp

lemma str_nat_1: "str_nat (Suc 0) = ''1''"
  by code_simp

lemma render_gate_hadamard_known:
  assumes "name g = ''H'' \<or> name g = ''h''" and "set (control g) \<subseteq> set qs"
  shows "render_gate (wire_names qs) qs grp opts g =
     Inr (concat (map (\<lambda>t. box t (fst (gate_colors (mark_parametrized_gates opts) g))
                               (snd (gate_colors (mark_parametrized_gates opts) g)) ''H'' @
                          concat (map (\<lambda>c. wire_name c @ '' '') (control g))) (target g)) @ newline)"
proof -
  have "control_refs (wire_names qs) (is_controlled g) (control g) =
          Inr (concat (map (\<lambda>c. wire_name c @ '' '') (control g)))"
    using assms(2) by (simp add: control_refs_known is_controlled_def)
  then show ?thesis
    by (simp add: render_gate_hadamard [OF assms(1)] hadamard_boxes_known)
qed

lemma str_nat_2: "str_nat 2 = ''2''"
  by code_simp

lemma upper_x: "upper ''x'' = ''X''"
  by code_simp


lemma upper_z: "upper ''z'' = ''Z''"
  by code_simp

lemma gate_colors_cases:
  "gate_colors mark g =
     (if (\<exists>p. parameter g = Some p \<and> \<not> is_Number p) \<and> mark
      then (''guo'', ''black'') else (''tq'', ''white''))"
  by (cases "parameter g") (simp_all add: gate_colors_def)

lemma fst_gate_colors:
  "fst (gate_colors mark g) =
     (if (\<exists>p. parameter g = Some p \<and> \<not> is_Number p) \<and> mark then ''guo'' else ''tq'')"
  by (simp add: gate_colors_cases)

lemma snd_gate_colors:
  "snd (gate_colors mark g) =
     (if (\<exists>p. parameter g = Some p \<and> \<not> is_Number p) \<and> mark then ''black'' else ''white'')"
  by (simp add: gate_colors_cases)


lemma wires_zip:
  "wires dn (zip [k..<k + length qs] qs) names =
     (if k + length qs \<le> length dn \<or> qs = []
      then Inr (\<lambda>q. if q \<in> set qs then Some (wire_name q) else names q,
                concat (map2 wire_line qs (take (length qs) (drop k dn))))
      else Inl IndexError)"
proof (induction qs arbitrary: k names)
  case Nil
  then show ?case by simp
next
  case (Cons q qs)
  have u: "[k..<k + length (q # qs)] = k # [Suc k..<Suc k + length qs]"
    by (subst upt_rec) simp
  have z: "zip [k..<k + length (q # qs)] (q # qs) = (k, q) # zip [Suc k..<Suc k + length qs] qs"
    unfolding u by simp
  note IH = Cons.IH [of "Suc k" "names(q \<mapsto> wire_name q)"]
  show ?case
  proof (cases "k < length dn")
    case False
    then show ?thesis unfolding z by simp
  next
    case True
    then have d: "take (Suc (length qs)) (drop k dn) = dn ! k # take (length qs) (drop (Suc k) dn)"
      by (simp add: Cons_nth_drop_Suc [symmetric])
    have step: "wires dn ((k, q) # rest) names =
        (case wires dn rest (names(q \<mapsto> wire_name q)) of
           Inl e \<Rightarrow> Inl e
         | Inr (names', r) \<Rightarrow> Inr (names', wire_line q (dn ! k) @ r))" for rest
      using True by simp
    show ?thesis
      unfolding z step IH
      by (cases "Suc k + length qs \<le> length dn \<or> qs = []") (use True d in \<open>auto simp: fun_eq_iff\<close>)
  qed
qed

lemma qpic_document_eq:
  "qpic_document c opts =
     (if length (qubits c) \<le> length (display_names (qubit_names opts) (qubits c))
      then app_res
             (Inr (header @ concat (map2 wire_line (qubits c)
                     (take (length (qubits c)) (display_names (qubit_names opts) (qubits c))))))
             (render_gates (wire_names (qubits c)) (qubits c)
                (normalize_group (group_together opts)) opts (gates c))
      else Inl IndexError)"
proof -
  have w: "wires dn (enumerate qs) Map.empty =
     (if length qs \<le> length dn \<or> qs = []
      then Inr (wire_names qs, concat (map2 wire_line qs (take (length qs) dn)))
      else Inl IndexError)" for dn qs
    using wires_zip [of dn 0 qs Map.empty] by (simp add: enumerate_def wire_names_def)
  show ?thesis
    by (auto simp: qpic_document_def w)
qed


lemma example_document_text: "qpic_document example_circuit example_options = Inr example_text"
  by (simp add: qpic_document_eq example_circuit_def example_hadamard_def example_rotation_def
      example_options_def example_text_def header_def newline_def backslash_def box_def
      wire_line_def render_gate_def Let_def gate_colors_def wire_names_def control_refs_def
      is_controlled_def default_options_def two_terms_def no_generator_def wire_name_def
      str_nat_0 str_nat_1 str_nat_2 upper_x upper_z)

lemma target_path_example: "target_path ''circuit'' (Some ''d'') = ''d/circuit.qpic''"
  by (simp add: target_path_def endswith_def)



subsection \<open>The segments of a document\<close>




lemma pauli_boxes_concat:
  "pauli_boxes gcol tcol ps = concat (map (\<lambda>(k, v). box k gcol tcol (upper v)) ps)"
  by (induction ps) auto











subsection \<open>Splitting and joining\<close>

lemma split_on_not_Nil: "split_on c s \<noteq> []"
  by (induction s) (auto split: list.splits)

lemma join_empty: "join [] xs = concat xs"
  by (induction "[] :: string" xs rule: join.induct) simp_all

lemma split_on_no_sep: "x \<in> set (split_on c s) \<Longrightarrow> c \<notin> set x"
  by (induction s arbitrary: x) (auto split: if_splits list.splits)

lemma concat_split_on: "concat (split_on c s) = filter (\<lambda>x. x \<noteq> c) s"
  by (induction s) (auto split: list.splits simp: split_on_not_Nil)

lemma join_split_on: "join [c] (split_on c s) = s"
proof (induction s)
  case Nil
  then show ?case by simp
next
  case (Cons x s)
  obtain y ys where y: "split_on c s = y # ys"
    using split_on_not_Nil [of c s] by (cases "split_on c s") auto
  show ?case
  proof (cases "x = c")
    case True
    with Cons y show ?thesis by simp
  next
    case False
    with Cons y show ?thesis by (cases ys) simp_all
  qed
qed

lemma length_split_on_one: "length (split_on c s) = 1 \<longleftrightarrow> c \<notin> set s"
proof (induction s)
  case Nil
  then show ?case by simp
next
  case (Cons x s)
  obtain y ys where y: "split_on c s = y # ys"
    using split_on_not_Nil [of c s] by (cases "split_on c s") auto
  with Cons show ?case by auto
qed

lemma join_snoc: "xs \<noteq> [] \<Longrightarrow> join sep (xs @ [x]) = join sep xs @ sep @ x"
  by (induction sep xs rule: join.induct) simp_all

lemma join_concat_filter:
  "\<forall>x \<in> set xs. c \<notin> set x \<Longrightarrow> filter (\<lambda>x. x \<noteq> c) (join [c] xs) = concat xs"
  by (induction "[c]" xs rule: join.induct) (auto simp: filter_id_conv)

text \<open>A string with the separator splits at the last separator.\<close>

lemma split_on_last:
  assumes "c \<in> set s"
  shows "s = join [c] (butlast (split_on c s)) @ [c] @ last (split_on c s)"
    and "c \<notin> set (last (split_on c s))"
    and "concat (butlast (split_on c s)) = filter (\<lambda>x. x \<noteq> c) (join [c] (butlast (split_on c s)))"
proof -
  let ?xs = "split_on c s"
  have ne: "?xs \<noteq> []" by (rule split_on_not_Nil)
  from assms have "length ?xs \<noteq> 1" using length_split_on_one [of c s] by simp
  with ne have b: "butlast ?xs \<noteq> []"
    by (cases ?xs) (auto split: if_splits)
  have "s = join [c] (butlast ?xs @ [last ?xs])"
    using ne by (simp add: join_split_on)
  then show "s = join [c] (butlast ?xs) @ [c] @ last ?xs"
    using b by (simp add: join_snoc)
  show "c \<notin> set (last ?xs)"
    using ne by (intro split_on_no_sep [of _ c s] last_in_set)
  have "\<forall>x \<in> set (butlast ?xs). c \<notin> set x"
    by (meson in_set_butlastD split_on_no_sep)
  then show "concat (butlast ?xs) = filter (\<lambda>x. x \<noteq> c) (join [c] (butlast ?xs))"
    by (simp add: join_concat_filter)
qed



lemma split_on_subset: "x \<in> set (split_on c s) \<Longrightarrow> set x \<subseteq> set s"
proof -
  assume "x \<in> set (split_on c s)"
  then have "set x \<subseteq> set (concat (split_on c s))"
    by auto
  then show ?thesis
    unfolding concat_split_on by auto
qed

lemma split_on_id: "c \<notin> set s \<Longrightarrow> split_on c s = [s]"
  by (induction s) auto

lemma endswith_subset: "endswith s t \<Longrightarrow> set t \<subseteq> set s"
  unfolding endswith_def by (metis set_drop_subset)

lemma target_path_no_dot:
  "CHR ''.'' \<notin> set fname \<Longrightarrow>
   target_path fname fpath = (case fpath of None \<Rightarrow> [] | Some p \<Rightarrow> p @ ''/'') @ fname @ ''.qpic''"
  using endswith_subset [of fname "''.qpic''"]
  by (auto simp: target_path_def split: option.splits)

lemma split_filename_dot:
  assumes "CHR ''.'' \<in> set filename"
  shows "split_filename filename =
     (last (split_on (CHR ''.'') filename),
      last (split_on (CHR ''/'') (concat (butlast (split_on (CHR ''.'') filename)))),
      (if 1 < length (split_on (CHR ''/'') (concat (butlast (split_on (CHR ''.'') filename))))
       then (if take 1 filename = ''/''
             then Some (''/'' @ concat (map (\<lambda>x. x @ ''/'')
                    (butlast (split_on (CHR ''/'') (concat (butlast (split_on (CHR ''.'') filename)))))))
             else Some (concat (map (\<lambda>x. x @ ''/'')
                    (butlast (split_on (CHR ''/'') (concat (butlast (split_on (CHR ''.'') filename))))))))
       else None))"
  using assms length_split_on_one [of "CHR ''.''" filename]
  by (simp add: split_filename_def Let_def join_empty)

lemma base_name_no_dot:
  assumes "CHR ''.'' \<in> set filename" and "split_filename filename = (ftype, fname, fpath)"
  shows "CHR ''.'' \<notin> set fname"
proof -
  let ?joined = "concat (butlast (split_on (CHR ''.'') filename))"
  from assms(2) have "fname = last (split_on (CHR ''/'') ?joined)"
    unfolding split_filename_dot [OF assms(1)] by simp
  then have "fname \<in> set (split_on (CHR ''/'') ?joined)"
    by (simp add: split_on_not_Nil)
  then have "set fname \<subseteq> set ?joined"
    by (rule split_on_subset)
  then show ?thesis
    unfolding split_on_last(3) [OF assms(1)] by auto
qed

lemma split_filename_example:
  "split_filename ''my.circuit.pdf'' = (''pdf'', ''mycircuit'', None)"
  by code_simp


subsection \<open>Effects of the export\<close>









subsection \<open>Labels of fixed parameters\<close>

lemma numpy_pi_bounds: "3 < numpy_pi" "numpy_pi < 32 / 10"
  by (simp_all add: numpy_pi_def)

lemma isclose_pi_iff:
  "isclose x (numpy_pi / of_nat i) (1 / 10000) \<longleftrightarrow>
     \<bar>x - numpy_pi / of_nat i\<bar> \<le> 1 / 10000 + 1 / 100000 * (numpy_pi / of_nat i)"
proof -
  have "0 \<le> numpy_pi / of_nat i"
    using numpy_pi_bounds(1) by simp
  then have "\<bar>numpy_pi / of_nat i\<bar> = numpy_pi / of_nat i"
    by (rule abs_of_nonneg)
  then show ?thesis
    unfolding isclose_def rtol_def by (simp only:)
qed

lemma pi_close_iff:
  "pi_close (Finite p) i \<longleftrightarrow>
     \<bar>\<bar>p\<bar> - numpy_pi / of_nat i\<bar> \<le> 1 / 10000 + 1 / 100000 * (numpy_pi / of_nat i)"
  by (simp only: pi_close.simps isclose_pi_iff)

lemma pi_close_ranges:
  "pi_close (Finite p) 1 \<Longrightarrow> 2 < \<bar>p\<bar>"
  "pi_close (Finite p) 2 \<Longrightarrow> 14 / 10 < \<bar>p\<bar> \<and> \<bar>p\<bar> < 2"
  "pi_close (Finite p) 3 \<Longrightarrow> 9 / 10 < \<bar>p\<bar> \<and> \<bar>p\<bar> < 14 / 10"
  "pi_close (Finite p) 4 \<Longrightarrow> \<bar>p\<bar> < 9 / 10"
  using numpy_pi_bounds unfolding pi_close_iff by simp_all linarith+

lemma pi_close_disjoint:
  "pi_close (Finite p) 2 \<Longrightarrow> \<not> pi_close (Finite p) 1"
  "pi_close (Finite p) 3 \<Longrightarrow> \<not> pi_close (Finite p) 1 \<and> \<not> pi_close (Finite p) 2"
  "pi_close (Finite p) 4 \<Longrightarrow>
     \<not> pi_close (Finite p) 1 \<and> \<not> pi_close (Finite p) 2 \<and> \<not> pi_close (Finite p) 3"
  using pi_close_ranges [of p] by linarith+

lemma pi_close_NegZero: "i \<in> {1, 2, 3, 4} \<Longrightarrow> \<not> pi_close NegZero i"
  using numpy_pi_bounds by (auto simp: isclose_pi_iff)

lemma pi_fraction_unfold:
  "pi_fraction p [1, 2, 3, 4] =
     (if pi_close p 1 then Some ((if negative p then ''-'' else ''+'') @ [backslash] @ ''pi/'' @ str_nat 1)
      else if pi_close p 2 then Some ((if negative p then ''-'' else ''+'') @ [backslash] @ ''pi/'' @ str_nat 2)
      else if pi_close p 3 then Some ((if negative p then ''-'' else ''+'') @ [backslash] @ ''pi/'' @ str_nat 3)
      else if pi_close p 4 then Some ((if negative p then ''-'' else ''+'') @ [backslash] @ ''pi/'' @ str_nat 4)
      else None)"
  by simp

lemma digit_char_values:
  "digit_char 0 = CHR ''0''" "digit_char 1 = CHR ''1''" "digit_char 2 = CHR ''2''"
  "digit_char 3 = CHR ''3''" "digit_char 4 = CHR ''4''" "digit_char 5 = CHR ''5''"
  "digit_char 6 = CHR ''6''" "digit_char 7 = CHR ''7''" "digit_char 8 = CHR ''8''"
  "digit_char 9 = CHR ''9''"
  by code_simp+

lemma pad_digits_4:
  "pad_digits 4 n =
     [digit_char (n div 10 div 10 div 10 mod 10), digit_char (n div 10 div 10 mod 10),
      digit_char (n div 10 mod 10), digit_char (n mod 10)]"
proof -
  have "(4 :: nat) = Suc (Suc (Suc (Suc 0)))"
    by simp
  then show ?thesis
    by (simp only: pad_digits.simps append_Nil append_Cons)
qed

lemma round_half_even_down:
  assumes "of_int f \<le> y" and "y - of_int f < 1 / 2"
  shows "round_half_even y = nat f"
proof -
  from assms have "\<lfloor>y\<rfloor> = f" by (intro floor_unique) linarith+
  with assms(2) show ?thesis by (simp add: round_half_even_def Let_def)
qed

lemma round_half_even_up:
  assumes "1 / 2 < y - of_int f" and "y < of_int f + 1"
  shows "round_half_even y = nat (f + 1)"
proof -
  from assms have "\<lfloor>y\<rfloor> = f" by (intro floor_unique) linarith+
  with assms(1) show ?thesis by (simp add: round_half_even_def Let_def)
qed

lemma pi_fraction_close:
  assumes "i \<in> {1, 2, 3, 4}" and "pi_close (Finite p) i"
  shows "pi_fraction (Finite p) [1, 2, 3, 4] =
           Some ((if p < 0 then ''-'' else ''+'') @ [backslash] @ ''pi/'' @ str_nat i)"
proof -
  from assms(1) consider "i = 1" | "i = 2" | "i = 3" | "i = 4" by auto
  then show ?thesis
  proof cases
    case 1
    with assms(2) show ?thesis unfolding pi_fraction_unfold by simp
  next
    case 2
    with assms(2) pi_close_disjoint(1) [of p] show ?thesis unfolding pi_fraction_unfold by simp
  next
    case 3
    with assms(2) pi_close_disjoint(2) [of p] show ?thesis unfolding pi_fraction_unfold by simp
  next
    case 4
    with assms(2) pi_close_disjoint(3) [of p] show ?thesis unfolding pi_fraction_unfold by simp
  qed
qed

lemma pi_fraction_far:
  assumes "\<forall>i \<in> {1, 2, 3, 4}. \<not> pi_close p i"
  shows "pi_fraction p [1, 2, 3, 4] = None"
  using assms unfolding pi_fraction_unfold by simp

lemma round_half_even_near:
  assumes "0 \<le> y"
  shows "\<bar>of_nat (round_half_even y) - y\<bar> \<le> 1 / 2"
proof -
  let ?f = "\<lfloor>y\<rfloor>"
  have f0: "0 \<le> ?f" using assms by simp
  have lo: "of_int ?f \<le> y" and hi: "y < of_int ?f + 1"
    by linarith+
  show ?thesis
  proof (cases "y - of_int ?f < 1 / 2")
    case True
    then have "round_half_even y = nat ?f"
      by (simp add: round_half_even_def Let_def)
    with f0 lo True show ?thesis by simp
  next
    case False
    show ?thesis
    proof (cases "1 / 2 < y - of_int ?f \<or> odd ?f")
      case up: True
      with False have "round_half_even y = nat (?f + 1)"
        by (auto simp: round_half_even_def Let_def)
      moreover have "rat_of_nat (nat (?f + 1)) = of_int ?f + 1"
        using f0 by (simp add: of_nat_nat)
      ultimately show ?thesis using False hi by simp
    next
      case down: False
      with False have "round_half_even y = nat ?f" and "y - of_int ?f = 1 / 2"
        by (auto simp: round_half_even_def Let_def)
      with f0 show ?thesis by simp
    qed
  qed
qed

lemma length_pad_digits: "length (pad_digits k n) = k"
  by (induction k arbitrary: n) simp_all

lemma format_p24f_shape:
  "\<exists>n. format_p24f (Finite p) =
          (if p < 0 then ''-'' else ''+'') @ str_nat (n div 10000) @ ''.'' @ pad_digits 4 (n mod 10000) \<and>
        length (pad_digits 4 (n mod 10000)) = 4 \<and>
        \<bar>of_nat n / 10000 - \<bar>p\<bar>\<bar> \<le> 1 / 20000"
proof -
  let ?n = "round_half_even (\<bar>p\<bar> * 10000)"
  have "\<bar>of_nat ?n - \<bar>p\<bar> * 10000\<bar> \<le> 1 / 2"
    by (rule round_half_even_near) simp
  then have "\<bar>of_nat ?n / 10000 - \<bar>p\<bar>\<bar> \<le> 1 / 20000"
    by (simp add: abs_le_iff field_simps)
  then show ?thesis
    by (intro exI [of _ ?n]) (simp add: fixed4_def Let_def length_pad_digits)
qed

lemma str_nat_3: "str_nat 3 = ''3''"
  by code_simp

lemma digit_char_Suc_0: "digit_char (Suc 0) = CHR ''1''"
  by code_simp

lemma fixed4_0: "fixed4 0 = ''0.0000''"
proof -
  have "round_half_even (0 * 10000) = nat 0"
    by (rule round_half_even_down) simp_all
  then show ?thesis
    by (simp add: fixed4_def Let_def str_nat_0 pad_digits_4 digit_char_values)
qed

lemma assign_name_not_finite:
  "assign_name (PFixed NegZero) = ''-0.0000''"
  "assign_name (PFixed (Inf False)) = ''+inf''"
  "assign_name (PFixed (Inf True)) = ''-inf''"
  "assign_name (PFixed NaN) = ''+nan''"
proof -
  have "\<forall>i \<in> {1, 2, 3, 4}. \<not> pi_close NegZero i"
    using pi_close_NegZero by blast
  then have "pi_fraction NegZero [1, 2, 3, 4] = None"
    by (rule pi_fraction_far)
  then show "assign_name (PFixed NegZero) = ''-0.0000''"
    by (simp add: fixed4_0)
  show "assign_name (PFixed (Inf False)) = ''+inf''"
    "assign_name (PFixed (Inf True)) = ''-inf''"
    "assign_name (PFixed NaN) = ''+nan''"
    by simp_all
qed

lemma assign_name_example: "assign_name (PFixed (Finite (123456 / 1000000))) = ''+0.1235''"
proof -
  have "\<forall>i \<in> {1, 2, 3, 4}. \<not> pi_close (Finite (123456 / 1000000)) i"
    by (simp add: pi_close_iff numpy_pi_def del: pi_close.simps)
  then have a: "assign_name (PFixed (Finite (123456 / 1000000))) =
      format_p24f (Finite (123456 / 1000000))"
    by (simp only: assign_name.simps pi_fraction_far option.case)
  have "round_half_even (\<bar>123456 / 1000000\<bar> * 10000) = nat (1234 + 1)"
    by (rule round_half_even_up) simp_all
  then have "format_p24f (Finite (123456 / 1000000)) = ''+0.1235''"
    by (simp add: fixed4_def Let_def str_nat_0 pad_digits_4 digit_char_values digit_char_Suc_0)
  with a show ?thesis by simp
qed

lemma assign_name_half_pi:
  "assign_name (PFixed (Finite (numpy_pi / 2))) = ''+'' @ [backslash] @ ''pi/2''"
proof -
  have "pi_close (Finite (numpy_pi / 2)) 2"
    using numpy_pi_bounds by (simp add: pi_close_iff del: pi_close.simps)
  then have "pi_fraction (Finite (numpy_pi / 2)) [1, 2, 3, 4] =
      Some ((if numpy_pi / 2 < 0 then ''-'' else ''+'') @ [backslash] @ ''pi/'' @ str_nat 2)"
    by (intro pi_fraction_close) simp_all
  then show ?thesis
    using numpy_pi_bounds by (simp add: str_nat_2)
qed

lemma format_p24f_31417: "format_p24f (Finite (31417 / 10000)) = ''+3.1417''"
proof -
  have "round_half_even (\<bar>31417 / 10000\<bar> * 10000) = nat 31417"
    by (rule round_half_even_down) simp_all
  then show ?thesis
    by (simp add: fixed4_def Let_def str_nat_3 pad_digits_4 digit_char_values digit_char_Suc_0)
qed

lemma format_half: "format_p24f (Finite (1 / 2)) = ''+0.5000''"
proof -
  have "round_half_even (\<bar>1 / 2\<bar> * 10000) = nat 5000"
    by (rule round_half_even_down) simp_all
  then show ?thesis
    by (simp add: fixed4_def Let_def str_nat_0 pad_digits_4 digit_char_values digit_char_Suc_0)
qed

lemma assign_name_31417:
  "assign_name (PFixed (Finite (31417 / 10000))) = ''+'' @ [backslash] @ ''pi/1''"
proof -
  have "pi_close (Finite (31417 / 10000)) 1"
    by (simp add: pi_close_iff numpy_pi_def del: pi_close.simps)
  then have "pi_fraction (Finite (31417 / 10000)) [1, 2, 3, 4] =
      Some ((if (31417 / 10000 :: rat) < 0 then ''-'' else ''+'') @ [backslash] @ ''pi/'' @ str_nat 1)"
    by (intro pi_fraction_close) simp_all
  then show ?thesis
    by (simp add: str_nat_1)
qed

lemma third_of_pi_close:
  "\<bar>\<bar>- (10472 / 10000) :: rat\<bar> - numpy_pi / of_nat 3\<bar> \<le> 1 / 10000 + 1 / 100000 * (numpy_pi / of_nat 3)"
  by (simp add: numpy_pi_def)

lemma half_far:
  "\<forall>i \<in> {1, 2, 3, 4 :: nat}.
     \<not> \<bar>\<bar>1 / 2 :: rat\<bar> - numpy_pi / of_nat i\<bar> \<le> 1 / 10000 + 1 / 100000 * (numpy_pi / of_nat i)"
  by (simp add: numpy_pi_def)

subsection \<open>Rendering of the gates\<close>

text \<open>
  Claim C9. In both branches that draw a gate from its generator (the branch taken when
  generators are enabled, and the branch for the names \<^verbatim>\<open>Exp-Pauli\<close> and
  \<^verbatim>\<open>GenRot\<close>), an empty Pauli string contributes nothing to the output: the text
  of a gate is the same as the text of the gate whose generators have lost their empty
  Pauli strings, and the loop over the terms gives the same text with and without an
  empty term at any position.
\<close>

theorem empty_terms_skipped:
  "render_gate names qs grp opts
     (g\<lparr>make_generator := \<lambda>b. map_option (filter (\<lambda>ps. ps \<noteq> [])) (make_generator g b),
        generator := map_option (filter (\<lambda>ps. ps \<noteq> [])) (generator g)\<rparr>) =
   render_gate names qs grp opts g
   \<and> generator_terms names gcol tcol cond cs (xs @ [] # ys) =
     generator_terms names gcol tcol cond cs (xs @ ys)"
proof
  show "render_gate names qs grp opts
     (g\<lparr>make_generator := \<lambda>b. map_option (filter (\<lambda>ps. ps \<noteq> [])) (make_generator g b),
        generator := map_option (filter (\<lambda>ps. ps \<noteq> [])) (generator g)\<rparr>) =
   render_gate names qs grp opts g"
    by (rule render_gate_filter_generators) simp_all
next
  have "generator_terms names gcol tcol cond cs (filter (\<lambda>ps. ps \<noteq> []) (xs @ [] # ys)) =
        generator_terms names gcol tcol cond cs (filter (\<lambda>ps. ps \<noteq> []) (xs @ ys))"
    by simp
  then show "generator_terms names gcol tcol cond cs (xs @ [] # ys) =
     generator_terms names gcol tcol cond cs (xs @ ys)"
    by (simp only: generator_terms_filter)
qed



text \<open>
  Claim C2, as amended. The boxes of a gate named \<^verbatim>\<open>H\<close> or \<^verbatim>\<open>h\<close> are filled
  with the highlight colour \<^verbatim>\<open>guo\<close> and have black text exactly when the gate has a
  parameter that is not a number and \<^verbatim>\<open>mark_parametrized_gates\<close> is set; otherwise
  they are filled with the primary colour \<^verbatim>\<open>tq\<close> and have white text.
\<close>

theorem hadamard_colors:
  assumes "name g = ''H'' \<or> name g = ''h''" and "set (control g) \<subseteq> set qs"
  shows "render_gate (wire_names qs) qs grp opts g =
     Inr (concat (map (\<lambda>t.
            box t
              (if (\<exists>p. parameter g = Some p \<and> \<not> is_Number p) \<and> mark_parametrized_gates opts
               then ''guo'' else ''tq'')
              (if (\<exists>p. parameter g = Some p \<and> \<not> is_Number p) \<and> mark_parametrized_gates opts
               then ''black'' else ''white'')
              ''H'' @
            concat (map (\<lambda>c. wire_name c @ '' '') (control g))) (target g)) @ newline)"
  unfolding render_gate_hadamard_known [OF assms] fst_gate_colors snd_gate_colors ..

theorem hadamard_colors_witness:
  "(name example_symbolic_hadamard = ''H'' \<or> name example_symbolic_hadamard = ''h'') \<and>
   set (control example_symbolic_hadamard) \<subseteq> set [0, 1] \<and>
   render_gate (wire_names [0, 1]) [0, 1] GroupFalse default_options example_symbolic_hadamard =
     Inr ('' a1 P:fill=guo  '' @ [backslash] @ ''textcolor{black}{H} '' @ newline) \<and>
   render_gate (wire_names [0, 1]) [0, 1] GroupFalse
       (default_options\<lparr>mark_parametrized_gates := False\<rparr>) example_symbolic_hadamard =
     Inr ('' a1 P:fill=tq  '' @ [backslash] @ ''textcolor{white}{H} '' @ newline)"
proof -
  have n: "name example_symbolic_hadamard = ''H'' \<or> name example_symbolic_hadamard = ''h''"
    by (simp add: example_symbolic_hadamard_def)
  have c: "set (control example_symbolic_hadamard) \<subseteq> set [0, 1]"
    by (simp add: example_symbolic_hadamard_def)
  show ?thesis
    using n c
      hadamard_colors [OF n c, where grp = GroupFalse and opts = default_options]
      hadamard_colors [OF n c, where grp = GroupFalse
        and opts = "default_options\<lparr>mark_parametrized_gates := False\<rparr>"]
    by (simp add: example_symbolic_hadamard_def default_options_def box_def str_nat_1)
qed

text \<open>
  The claim C2 as it was stated gives black text to the boxes in the primary colour: a
  Hadamard gate without a parameter is drawn in \<^verbatim>\<open>tq\<close> with white text.
\<close>

theorem hadamard_colors_counterexample:
  "render_gate (wire_names [0, 1]) [0, 1] GroupFalse default_options example_hadamard =
     Inr ('' a0 P:fill=tq  '' @ [backslash] @ ''textcolor{white}{H} a1 '' @ newline) \<and>
   render_gate (wire_names [0, 1]) [0, 1] GroupFalse default_options example_hadamard \<noteq>
     Inr ('' a0 P:fill=tq  '' @ [backslash] @ ''textcolor{black}{H} a1 '' @ newline)"
proof -
  have n: "name example_hadamard = ''H'' \<or> name example_hadamard = ''h''"
    by (simp add: example_hadamard_def)
  have c: "set (control example_hadamard) \<subseteq> set [0, 1]"
    by (simp add: example_hadamard_def)
  show ?thesis
    using render_gate_hadamard_known [OF n c, of GroupFalse default_options]
    by (simp add: example_hadamard_def default_options_def
        gate_colors_def box_def wire_name_def str_nat_0 str_nat_1)
qed




subsection \<open>The label of a parameter\<close>

text \<open>
  Claim C3, as amended. For a fixed numeric parameter with the finite value \<open>p\<close>,
  \<^verbatim>\<open>assign_name\<close> tries the divisors 1 to 4: when \<open>\<bar>p\<bar>\<close> is within
  \<open>1e-4 + 1e-5 \<cdot> \<pi>/i\<close> of \<open>\<pi>/i\<close> (the absolute tolerance given in the call and the
  default relative tolerance of \<^verbatim>\<open>numpy.isclose\<close>), the label is the signed fraction,
  \<^verbatim>\<open>+\pi/i\<close> for \<open>p \<ge> 0\<close> and \<^verbatim>\<open>-\pi/i\<close> for \<open>p < 0\<close>; when this holds for no divisor,
  the label is \<open>p\<close> as a decimal with its sign and exactly four fractional digits,
  rounded to the nearest. In particular \<open>0.123456\<close> gives \<^verbatim>\<open>+0.1235\<close> and \<open>\<pi>/2\<close> gives
  \<^verbatim>\<open>+\pi/2\<close>. Negative zero gives \<^verbatim>\<open>-0.0000\<close>, the infinities give \<^verbatim>\<open>+inf\<close> and
  \<^verbatim>\<open>-inf\<close>, and a NaN gives \<^verbatim>\<open>+nan\<close>.
\<close>

theorem assign_name_fixed:
  "(\<forall>i \<in> {1, 2, 3, 4}.
      \<bar>\<bar>p\<bar> - numpy_pi / of_nat i\<bar> \<le> 1 / 10000 + 1 / 100000 * (numpy_pi / of_nat i) \<longrightarrow>
      assign_name (PFixed (Finite p)) =
        (if p < 0 then ''-'' else ''+'') @ [CHR 0x5C] @ ''pi/'' @ str_nat i) \<and>
   ((\<forall>i \<in> {1, 2, 3, 4}.
       \<not> \<bar>\<bar>p\<bar> - numpy_pi / of_nat i\<bar> \<le> 1 / 10000 + 1 / 100000 * (numpy_pi / of_nat i)) \<longrightarrow>
      (\<exists>n. assign_name (PFixed (Finite p)) =
              (if p < 0 then ''-'' else ''+'') @ str_nat (n div 10000) @ ''.'' @
              pad_digits 4 (n mod 10000) \<and>
            length (pad_digits 4 (n mod 10000)) = 4 \<and>
            \<bar>of_nat n / 10000 - \<bar>p\<bar>\<bar> \<le> 1 / 20000)) \<and>
   assign_name (PFixed (Finite (123456 / 1000000))) = ''+0.1235'' \<and>
   assign_name (PFixed (Finite (numpy_pi / 2))) = ''+'' @ [CHR 0x5C] @ ''pi/2'' \<and>
   assign_name (PFixed NegZero) = ''-0.0000'' \<and>
   assign_name (PFixed (Inf False)) = ''+inf'' \<and>
   assign_name (PFixed (Inf True)) = ''-inf'' \<and>
   assign_name (PFixed NaN) = ''+nan''"
proof (intro conjI ballI impI)
  fix i :: nat
  assume "i \<in> {1, 2, 3, 4}"
    and "\<bar>\<bar>p\<bar> - numpy_pi / of_nat i\<bar> \<le> 1 / 10000 + 1 / 100000 * (numpy_pi / of_nat i)"
  then have "pi_fraction (Finite p) [1, 2, 3, 4] =
      Some ((if p < 0 then ''-'' else ''+'') @ [backslash] @ ''pi/'' @ str_nat i)"
    by (intro pi_fraction_close) (simp_all only: pi_close_iff)
  then show "assign_name (PFixed (Finite p)) =
      (if p < 0 then ''-'' else ''+'') @ [CHR 0x5C] @ ''pi/'' @ str_nat i"
    by (simp add: backslash_def)
next
  assume "\<forall>i \<in> {1, 2, 3, 4}.
       \<not> \<bar>\<bar>p\<bar> - numpy_pi / of_nat i\<bar> \<le> 1 / 10000 + 1 / 100000 * (numpy_pi / of_nat i)"
  then have "\<forall>i \<in> {1, 2, 3, 4}. \<not> pi_close (Finite p) i"
    by (simp only: pi_close_iff)
  then have "assign_name (PFixed (Finite p)) = format_p24f (Finite p)"
    by (simp only: assign_name.simps pi_fraction_far option.case)
  then show "\<exists>n. assign_name (PFixed (Finite p)) =
              (if p < 0 then ''-'' else ''+'') @ str_nat (n div 10000) @ ''.'' @
              pad_digits 4 (n mod 10000) \<and>
            length (pad_digits 4 (n mod 10000)) = 4 \<and>
            \<bar>of_nat n / 10000 - \<bar>p\<bar>\<bar> \<le> 1 / 20000"
    using format_p24f_shape [of p] by simp
next
  show "assign_name (PFixed (Finite (123456 / 1000000))) = ''+0.1235''"
    by (rule assign_name_example)
next
  show "assign_name (PFixed (Finite (numpy_pi / 2))) = ''+'' @ [CHR 0x5C] @ ''pi/2''"
    using assign_name_half_pi by (simp add: backslash_def)
qed (rule assign_name_not_finite)+

theorem assign_name_fixed_witness:
  "(3 :: nat) \<in> {1, 2, 3, 4} \<and>
   \<bar>\<bar>- (10472 / 10000) :: rat\<bar> - numpy_pi / of_nat 3\<bar> \<le> 1 / 10000 + 1 / 100000 * (numpy_pi / of_nat 3) \<and>
   assign_name (PFixed (Finite (- (10472 / 10000)))) = ''-'' @ [CHR 0x5C] @ ''pi/3'' \<and>
   \<not> \<bar>\<bar>1 / 2 :: rat\<bar> - numpy_pi / of_nat 1\<bar> \<le> 1 / 10000 + 1 / 100000 * (numpy_pi / of_nat 1) \<and>
   \<not> \<bar>\<bar>1 / 2 :: rat\<bar> - numpy_pi / of_nat 2\<bar> \<le> 1 / 10000 + 1 / 100000 * (numpy_pi / of_nat 2) \<and>
   \<not> \<bar>\<bar>1 / 2 :: rat\<bar> - numpy_pi / of_nat 3\<bar> \<le> 1 / 10000 + 1 / 100000 * (numpy_pi / of_nat 3) \<and>
   \<not> \<bar>\<bar>1 / 2 :: rat\<bar> - numpy_pi / of_nat 4\<bar> \<le> 1 / 10000 + 1 / 100000 * (numpy_pi / of_nat 4) \<and>
   assign_name (PFixed (Finite (1 / 2))) = ''+0.5000''"
proof -
  have a: "assign_name (PFixed (Finite (- (10472 / 10000)))) = ''-'' @ [CHR 0x5C] @ ''pi/3''"
    using assign_name_fixed [of "- (10472 / 10000)"] third_of_pi_close
    by (simp add: str_nat_3)
  have f: "format_p24f (Finite (1 / 2)) = ''+0.5000''"
    by (rule format_half)
  have n: "assign_name (PFixed (Finite (1 / 2))) = format_p24f (Finite (1 / 2))"
  proof -
    have "\<forall>i \<in> {1, 2, 3, 4}. \<not> pi_close (Finite (1 / 2)) i"
      using half_far by (simp only: pi_close_iff)
    then show ?thesis
      by (simp only: assign_name.simps pi_fraction_far option.case)
  qed
  from assign_name_fixed [of "1 / 2"] half_far
  have "\<exists>n. assign_name (PFixed (Finite (1 / 2))) =
              ''+'' @ str_nat (n div 10000) @ ''.'' @ pad_digits 4 (n mod 10000)"
    by auto
  with a n f third_of_pi_close half_far show ?thesis
    by simp
qed

text \<open>
  The claim C3 as it was stated takes the tolerance to be \<open>1e-4\<close> alone: \<open>3.1417\<close> is
  further than that from every \<open>\<pi>/i\<close>, so the claim gives it the decimal label
  \<^verbatim>\<open>+3.1417\<close>, and it is labelled \<^verbatim>\<open>+\pi/1\<close>.
\<close>

theorem absolute_tolerance_counterexample:
  "\<not> \<bar>\<bar>31417 / 10000 :: rat\<bar> - numpy_pi / 1\<bar> \<le> 1 / 10000 \<and>
   \<not> \<bar>\<bar>31417 / 10000 :: rat\<bar> - numpy_pi / 2\<bar> \<le> 1 / 10000 \<and>
   \<not> \<bar>\<bar>31417 / 10000 :: rat\<bar> - numpy_pi / 3\<bar> \<le> 1 / 10000 \<and>
   \<not> \<bar>\<bar>31417 / 10000 :: rat\<bar> - numpy_pi / 4\<bar> \<le> 1 / 10000 \<and>
   assign_name (PFixed (Finite (31417 / 10000))) = ''+'' @ [CHR 0x5C] @ ''pi/1'' \<and>
   format_p24f (Finite (31417 / 10000)) = ''+3.1417'' \<and>
   assign_name (PFixed (Finite (31417 / 10000))) \<noteq> ''+3.1417''"
proof -
  have t: "\<not> \<bar>\<bar>31417 / 10000 :: rat\<bar> - numpy_pi / 1\<bar> \<le> 1 / 10000"
    "\<not> \<bar>\<bar>31417 / 10000 :: rat\<bar> - numpy_pi / 2\<bar> \<le> 1 / 10000"
    "\<not> \<bar>\<bar>31417 / 10000 :: rat\<bar> - numpy_pi / 3\<bar> \<le> 1 / 10000"
    "\<not> \<bar>\<bar>31417 / 10000 :: rat\<bar> - numpy_pi / 4\<bar> \<le> 1 / 10000"
    by (simp_all add: numpy_pi_def)
  have a: "assign_name (PFixed (Finite (31417 / 10000))) = ''+'' @ [CHR 0x5C] @ ''pi/1''"
    using assign_name_31417 by (simp add: backslash_def)
  note f = format_p24f_31417
  from t a f show ?thesis
    by simp
qed

subsection \<open>The document\<close>




text \<open>
  Claim C8. When \<^verbatim>\<open>export_to_qpic\<close> is given a filename and returns a document,
  the target file holds exactly that document afterwards, whatever it held before, no
  other file has changed, and the call without a filename returns the same document;
  conversely the document returned without a filename is the one returned with a
  filename whose target can be written.
\<close>

theorem export_to_qpic_roundtrip:
  "(export_to_qpic c (Some f) filepath opts w = (Inr doc, w') \<longrightarrow>
      files w' (target_path f filepath) = Some doc \<and>
      (\<forall>p. p \<noteq> target_path f filepath \<longrightarrow> files w' p = files w p) \<and>
      trace w' = trace w \<and>
      export_to_qpic c None filepath opts w = (Inr doc, w)) \<and>
   (export_to_qpic c None filepath opts w = (Inr doc, w') \<and> writable w (target_path f filepath) \<longrightarrow>
      fst (export_to_qpic c (Some f) filepath opts w) = Inr doc)"
  by (cases "qpic_document c opts")
     (auto simp: export_to_qpic_def split: if_splits)

theorem export_to_qpic_roundtrip_witness:
  "export_to_qpic example_circuit (Some ''circuit'') (Some ''d'') example_options example_world =
     (Inr example_text, example_world\<lparr>files := [''d/circuit.qpic'' \<mapsto> example_text]\<rparr>) \<and>
   files example_world ''d/circuit.qpic'' = Some ''old content'' \<and>
   files (example_world\<lparr>files := [''d/circuit.qpic'' \<mapsto> example_text]\<rparr>) ''d/circuit.qpic'' =
     Some example_text \<and>
   export_to_qpic example_circuit None (Some ''d'') example_options example_world =
     (Inr example_text, example_world)"
proof -
  have h: "export_to_qpic example_circuit (Some ''circuit'') (Some ''d'') example_options example_world =
     (Inr example_text, example_world\<lparr>files := [''d/circuit.qpic'' \<mapsto> example_text]\<rparr>)"
    by (simp add: export_to_qpic_def example_document_text target_path_example example_world_def
        always_writable_def)
  from export_to_qpic_roundtrip [of example_circuit "''circuit''" "Some ''d''" example_options
      example_world example_text "example_world\<lparr>files := [''d/circuit.qpic'' \<mapsto> example_text]\<rparr>"] h
  show ?thesis
    by (simp add: target_path_example example_world_def)
qed

subsection \<open>The export to a picture\<close>




text \<open>
  Claim C7, as amended. \<^verbatim>\<open>export_to\<close> raises the error about the missing renderer
  whenever the renderer is absent, and the error about the missing file type whenever
  the renderer is present and the filename contains no dot; in both cases the files and
  the trace are as before, and neither the compiler nor the circuit has been looked at.
\<close>

theorem export_to_guards:
  "(\<not> system_has_qpic \<longrightarrow>
      export_to system_has_qpic compiler c filename opts w = (Inl NoQpic, w)) \<and>
   (system_has_qpic \<and> CHR ''.'' \<notin> set filename \<longrightarrow>
      export_to system_has_qpic compiler c filename opts w = (Inl (NoFiletype filename), w))"
  by (simp add: export_to_def)

theorem export_to_guards_witness:
  "export_to False Inr example_circuit ''my.circuit.pdf'' example_options example_world =
     (Inl NoQpic, example_world) \<and>
   CHR ''.'' \<notin> set ''circuit'' \<and>
   export_to True Inr example_circuit ''circuit'' example_options example_world =
     (Inl (NoFiletype ''circuit''), example_world)"
  using export_to_guards [of False Inr example_circuit "''my.circuit.pdf''" example_options example_world]
    export_to_guards [of True Inr example_circuit "''circuit''" example_options example_world]
  by simp

text \<open>
  The claim C7 as it was stated asks for the error about the file type whenever the
  filename has no dot: without the renderer, the first guard raises its own error.
\<close>

theorem usage_error_counterexample:
  "CHR ''.'' \<notin> set ''circuit'' \<and>
   export_to False Inr example_circuit ''circuit'' example_options example_world =
     (Inl NoQpic, example_world) \<and>
   export_to False Inr example_circuit ''circuit'' example_options example_world \<noteq>
     (Inl (NoFiletype ''circuit''), example_world)"
  by (simp add: export_to_def)

text \<open>
  Claim C10, as amended. For a filename with a dot, the file type is what follows the
  last dot; the base name given to the document builder is the part after the last
  slash of what precedes the last dot with all its dots removed (all of it when it has
  no slash, and then there is no directory); no dot is left in the base name, so the
  intermediate document is the base name followed by \<^verbatim>\<open>.qpic\<close>.
\<close>

theorem split_filename_dots:
  assumes "CHR ''.'' \<in> set filename" and "split_filename filename = (ftype, fname, fpath)"
  shows "\<exists>pre. filename = pre @ ''.'' @ ftype \<and> CHR ''.'' \<notin> set ftype \<and>
           fname = last (split_on (CHR ''/'') (filter (\<lambda>x. x \<noteq> CHR ''.'') pre)) \<and>
           CHR ''.'' \<notin> set fname \<and>
           (CHR ''/'' \<notin> set pre \<longrightarrow> fname = filter (\<lambda>x. x \<noteq> CHR ''.'') pre \<and> fpath = None) \<and>
           target_path fname fpath =
             (case fpath of None \<Rightarrow> [] | Some p \<Rightarrow> p @ ''/'') @ fname @ ''.qpic''"
proof -
  let ?segs = "split_on (CHR ''.'') filename"
  let ?pre = "join ''.'' (butlast ?segs)"
  let ?joined = "concat (butlast ?segs)"
  let ?tmp = "split_on (CHR ''/'') ?joined"
  note sf = split_filename_dot [OF assms(1)]
  from assms(2) have ft: "ftype = last ?segs" and fn: "fname = last ?tmp"
    and fp: "fpath = (if 1 < length ?tmp
       then (if take 1 filename = ''/''
             then Some (''/'' @ concat (map (\<lambda>x. x @ ''/'') (butlast ?tmp)))
             else Some (concat (map (\<lambda>x. x @ ''/'') (butlast ?tmp))))
       else None)"
    unfolding sf by simp_all
  note sl = split_on_last [OF assms(1)]
  have j: "?joined = filter (\<lambda>x. x \<noteq> CHR ''.'') ?pre"
    by (rule sl(3))
  have 1: "filename = ?pre @ ''.'' @ ftype"
    using sl(1) ft by simp
  have 2: "CHR ''.'' \<notin> set ftype"
    using sl(2) ft by simp
  have 3: "fname = last (split_on (CHR ''/'') (filter (\<lambda>x. x \<noteq> CHR ''.'') ?pre))"
    using fn j by simp
  have 4: "CHR ''.'' \<notin> set fname"
    using assms by (rule base_name_no_dot)
  have 5: "CHR ''/'' \<notin> set ?pre \<longrightarrow> fname = filter (\<lambda>x. x \<noteq> CHR ''.'') ?pre \<and> fpath = None"
  proof
    assume "CHR ''/'' \<notin> set ?pre"
    then have "CHR ''/'' \<notin> set ?joined"
      unfolding j by simp
    then have "?tmp = [?joined]"
      by (rule split_on_id)
    then show "fname = filter (\<lambda>x. x \<noteq> CHR ''.'') ?pre \<and> fpath = None"
      using fn fp j by simp
  qed
  have 6: "target_path fname fpath =
             (case fpath of None \<Rightarrow> [] | Some p \<Rightarrow> p @ ''/'') @ fname @ ''.qpic''"
    using 4 by (rule target_path_no_dot)
  from 1 2 3 4 5 6 show ?thesis by blast
qed

theorem split_filename_dots_witness:
  "CHR ''.'' \<in> set ''my.circuit.pdf'' \<and>
   split_filename ''my.circuit.pdf'' = (''pdf'', ''mycircuit'', None) \<and>
   CHR ''.'' \<notin> set ''mycircuit'' \<and>
   target_path ''mycircuit'' None = ''mycircuit.qpic''"
proof -
  have d: "CHR ''.'' \<in> set ''my.circuit.pdf''" by simp
  from split_filename_dots [OF d split_filename_example]
  show ?thesis
    using d split_filename_example by auto
qed

text \<open>
  The claim C10 as it was stated takes the whole concatenation of the segments before
  the last dot as the base name: with a directory in the filename, the base name is
  only the part after the last slash.
\<close>

theorem base_name_counterexample:
  "fst (snd (split_filename ''d/my.circuit.pdf'')) = ''mycircuit'' \<and>
   join [] (butlast (split_on (CHR ''.'') ''d/my.circuit.pdf'')) = ''d/mycircuit'' \<and>
   fst (snd (split_filename ''d/my.circuit.pdf'')) \<noteq>
     join [] (butlast (split_on (CHR ''.'') ''d/my.circuit.pdf''))"
  by code_simp

end
